theory Spec2Isabelle
  imports Main "HOL-Library.Word"
begin

section \<open>JavaScript strings\<close>

text \<open>
  A JavaScript string is a sequence of UTF-16 code units, so the model takes lists of
  16-bit words. \<open>utf16\<close> embeds the ASCII literals of the source.
\<close>

type_synonym jsstring = "16 word list"

definition utf16 :: "string \<Rightarrow> jsstring" where
  "utf16 s = map of_char s"

text \<open>
  \<open>String.prototype.trim\<close> removes, at both ends, the code units that ECMAScript calls
  WhiteSpace (TAB, VT, FF, ZWNBSP and the space separators) or LineTerminator
  (LF, CR, LS, PS).
\<close>

definition isWhiteSpace :: "16 word \<Rightarrow> bool" where
  "isWhiteSpace c \<longleftrightarrow> c \<in> set [0x0009, 0x000A, 0x000B, 0x000C, 0x000D, 0x0020, 0x00A0, 0x1680,
     0x2000, 0x2001, 0x2002, 0x2003, 0x2004, 0x2005, 0x2006, 0x2007, 0x2008, 0x2009, 0x200A,
     0x2028, 0x2029, 0x202F, 0x205F, 0x3000, 0xFEFF]"

definition trim :: "jsstring \<Rightarrow> jsstring" where
  "trim s = rev (dropWhile isWhiteSpace (rev (dropWhile isWhiteSpace s)))"

text \<open>\<open>s.startsWith(p)\<close> and the one-argument \<open>s.substring(n)\<close>.\<close>

definition startsWith :: "jsstring \<Rightarrow> jsstring \<Rightarrow> bool" where
  "startsWith s p \<longleftrightarrow> take (length p) s = p"

definition substring :: "jsstring \<Rightarrow> nat \<Rightarrow> jsstring" where
  "substring s n = drop n s"

text \<open>\<open>Date.now().toString()\<close>: the decimal digits of a count of milliseconds.\<close>

fun toString :: "nat \<Rightarrow> jsstring" where
  "toString n =
     (if n < 10 then [of_nat (48 + n)] else toString (n div 10) @ [of_nat (48 + n mod 10)])"

declare toString.simps [simp del]

section \<open>The message model (types.ts)\<close>

datatype Author = USER | MODEL

text \<open>
  An entry of \<open>references\<close>. The interface declares both fields as strings; the objects
  built by \<open>sendMessage\<close> hold whatever \<open>chunk.web?.uri\<close> and \<open>chunk.web?.title\<close>
  evaluate to, \<open>None\<close> standing for \<open>undefined\<close>.
\<close>

record Reference =
  uri :: "jsstring option"
  title :: "jsstring option"

text \<open>
  \<open>msg_text\<close> and \<open>msg_id\<close> are the fields \<open>text\<close> and \<open>id\<close> of the interface.
  \<open>text\<close> is declared a string; \<open>sendMessage\<close> stores \<open>response.text\<close> there unchecked,
  so the field holds \<open>None\<close> when the response has no text. An optional field that is
  absent or \<open>undefined\<close> is \<open>None\<close>.
\<close>

record Message =
  author :: Author
  msg_text :: "jsstring option"
  msg_id :: jsstring
  references :: "Reference list option"
  imageUrl :: "jsstring option"

section \<open>The provider's response\<close>

text \<open>
  The shape of what \<open>ai.models.generateContent\<close> resolves to, as far as \<open>sendMessage\<close>
  reads it: \<open>response.text\<close>, \<open>response.candidates[0].content.parts[i].inlineData.data\<close>
  and \<open>response.candidates[0].groundingMetadata.groundingChunks[i].web.{uri,title}\<close>.
  Every level that may be absent at run time is an option.
\<close>

record Blob =
  data :: jsstring

record Part =
  inlineData :: "Blob option"

record Content =
  parts :: "Part list option"

record GroundingChunkWeb =
  web_uri :: "jsstring option"
  web_title :: "jsstring option"

record GroundingChunk =
  web :: "GroundingChunkWeb option"

text \<open>
  What \<open>groundingChunks\<close> holds when it is neither \<open>null\<close> nor \<open>undefined\<close>: an array,
  whose entries may themselves be \<open>null\<close> or \<open>undefined\<close> (\<open>None\<close>), or a value that is
  no array and so has no \<open>map\<close> method.
\<close>

datatype ChunksValue = ChunkArray "GroundingChunk option list" | NotAnArray

record GroundingMetadata =
  groundingChunks :: "ChunksValue option"

record Candidate =
  content :: "Content option"
  groundingMetadata :: "GroundingMetadata option"

record Response =
  resp_text :: "jsstring option"
  candidates :: "Candidate list option"

text \<open>
  The two calls of \<open>generateContent\<close>. \<open>ImageRequest prompt\<close> is the call with model
  \<open>gemini-2.5-flash-image\<close>, contents \<open>{parts: [{text: prompt}]}\<close> and response
  modality IMAGE; \<open>TextRequest contents\<close> is the call with model \<open>gemini-2.5-flash\<close>,
  the given contents and the Google search tool.
\<close>

datatype Request = ImageRequest jsstring | TextRequest jsstring

text \<open>The awaited call either throws or resolves to a response.\<close>

datatype Outcome = Throws | Returns Response

text \<open>
  What the \<open>try\<close> block can throw: the provider's own error, a TypeError from reading
  a property of \<open>undefined\<close> (or iterating it), and the block's own
  \<open>Error("No image data received from API.")\<close>.
\<close>

datatype Error = ProviderThrew | TypeError | NoImageData

section \<open>The component state (App.tsx)\<close>

record State =
  messages :: "Message list"
  input :: jsstring
  isLoading :: bool

definition initialState :: State where
  "initialState = \<lparr>messages = [], input = [], isLoading = False\<rparr>"

definition greetingText :: jsstring where
  "greetingText = utf16 ''Hello! I'm your MigosiDesigns AI Mentor. How can I help you with your graphic design journey today? You can also ask me to create an image by typing `/imagine` followed by a prompt.''"

definition greeting :: Message where
  "greeting = \<lparr>author = MODEL, msg_text = Some greetingText, msg_id = utf16 ''initial-message'',
     references = None, imageUrl = None\<rparr>"

text \<open>The mount effect: \<open>setMessages([greeting])\<close>.\<close>

definition mount :: "State \<Rightarrow> State" where
  "mount st = st\<lparr>messages := [greeting]\<rparr>"

text \<open>The input's \<open>onChange\<close> handler: \<open>setInput(e.target.value)\<close>.\<close>

definition setInput :: "jsstring \<Rightarrow> State \<Rightarrow> State" where
  "setInput v st = st\<lparr>input := v\<rparr>"

section \<open>sendMessage\<close>

definition imaginePrefix :: jsstring where
  "imaginePrefix = utf16 ''/imagine ''"

definition isImagePrompt :: "jsstring \<Rightarrow> bool" where
  "isImagePrompt currentInput \<longleftrightarrow> startsWith (trim currentInput) imaginePrefix"

definition persona :: jsstring where
  "persona = utf16 ''You are MigosiDesigns, a friendly and expert graphic design mentor. Your goal is to guide and assist users with their graphic design questions. Provide encouraging, insightful, and practical advice. User prompt: ''"

text \<open>The request the \<open>try\<close> block issues for the captured input.\<close>

definition buildRequest :: "jsstring \<Rightarrow> Request" where
  "buildRequest currentInput =
     (if isImagePrompt currentInput
      then ImageRequest (substring (trim currentInput) (length imaginePrefix))
      else TextRequest (persona @ currentInput))"

definition userMessage :: "nat \<Rightarrow> jsstring \<Rightarrow> Message" where
  "userMessage now inp = \<lparr>author = USER, msg_text = Some inp, msg_id = toString now,
     references = None, imageUrl = None\<rparr>"

text \<open>
  \<open>sendMessage\<close> up to its \<open>await\<close>. \<open>now\<close> is the value of \<open>Date.now()\<close>. The result
  is the new component state and the request that is now awaited, if one was issued.
  The \<open>input\<close> and \<open>isLoading\<close> that the handler reads are those of the state it is
  called in. Creating the client and calling \<open>generateContent\<close> are one awaited step,
  whose failure is the outcome \<open>Throws\<close>.
\<close>

definition sendMessage :: "nat \<Rightarrow> State \<Rightarrow> State \<times> Request option" where
  "sendMessage now st =
     (if trim (input st) = [] \<or> isLoading st then (st, None)
      else
        let currentInput = input st;
            st' = st\<lparr>messages := messages st @ [userMessage now (input st)],
                     input := [], isLoading := True\<rparr>
        in (st', Some (buildRequest currentInput)))"

text \<open>
  The loop over the parts of an image response: every part with inline data overwrites
  \<open>imageUrl\<close>.
\<close>

definition dataUrlPrefix :: jsstring where
  "dataUrlPrefix = utf16 ''data:image/png;base64,''"

fun scanParts :: "Part list \<Rightarrow> jsstring \<Rightarrow> jsstring" where
  "scanParts [] url = url"
| "scanParts (part # rest) url =
     scanParts rest (case inlineData part of
                       None \<Rightarrow> url
                     | Some blob \<Rightarrow> dataUrlPrefix @ data blob)"

text \<open>\<open>response.candidates[0].content.parts\<close>, a TypeError where a level is missing.\<close>

definition responseParts :: "Response \<Rightarrow> Error + Part list" where
  "responseParts response =
     (case candidates response of
        None \<Rightarrow> Inl TypeError
      | Some [] \<Rightarrow> Inl TypeError
      | Some (c # _) \<Rightarrow>
          (case content c of
             None \<Rightarrow> Inl TypeError
           | Some ct \<Rightarrow>
               (case parts ct of
                  None \<Rightarrow> Inl TypeError
                | Some ps \<Rightarrow> Inr ps)))"

definition caption :: "jsstring \<Rightarrow> jsstring" where
  \<open>caption prompt = utf16 ''Here is my take on: "'' @ prompt @ utf16 ''"''\<close>

definition modelId :: "nat \<Rightarrow> jsstring" where
  "modelId now = toString now @ utf16 ''-model''"

definition imageBranch :: "nat \<Rightarrow> jsstring \<Rightarrow> Response \<Rightarrow> Error + Message" where
  "imageBranch now prompt response =
     (case responseParts response of
        Inl e \<Rightarrow> Inl e
      | Inr ps \<Rightarrow>
          let url = scanParts ps []
          in if url \<noteq> []
             then Inr \<lparr>author = MODEL, msg_text = Some (caption prompt), msg_id = modelId now,
                       references = None, imageUrl = Some url\<rparr>
             else Inl NoImageData)"

text \<open>\<open>response.candidates?.[0]?.groundingMetadata?.groundingChunks\<close>.\<close>

definition responseChunks :: "Response \<Rightarrow> ChunksValue option" where
  "responseChunks response =
     (case candidates response of
        None \<Rightarrow> None
      | Some [] \<Rightarrow> None
      | Some (c # _) \<Rightarrow>
          (case groundingMetadata c of
             None \<Rightarrow> None
           | Some gm \<Rightarrow> groundingChunks gm))"

definition chunkRef :: "GroundingChunk \<Rightarrow> Reference" where
  "chunkRef chunk =
     \<lparr>uri = (case web chunk of None \<Rightarrow> None | Some w \<Rightarrow> web_uri w),
      title = (case web chunk of None \<Rightarrow> None | Some w \<Rightarrow> web_title w)\<rparr>"

text \<open>Truthiness of a value that is a string or \<open>undefined\<close>.\<close>

fun truthy :: "jsstring option \<Rightarrow> bool" where
  "truthy None = False"
| "truthy (Some s) = (s \<noteq> [])"

definition keepRef :: "Reference \<Rightarrow> bool" where
  "keepRef r \<longleftrightarrow> truthy (uri r) \<and> truthy (title r)"

text \<open>
  The \<open>map\<close> over the entries, in order. Its callback reads \<open>chunk.web\<close>, a TypeError
  at an entry that is \<open>null\<close> or \<open>undefined\<close>.
\<close>

fun mapChunks :: "GroundingChunk option list \<Rightarrow> Error + Reference list" where
  "mapChunks [] = Inr []"
| "mapChunks (None # rest) = Inl TypeError"
| "mapChunks (Some chunk # rest) =
     (case mapChunks rest of
        Inl e \<Rightarrow> Inl e
      | Inr refs \<Rightarrow> Inr (chunkRef chunk # refs))"

text \<open>
  \<open>groundingChunks?.map(...).filter(...)\<close>: \<open>undefined\<close> when the chunks are nullish, a
  TypeError when the value has no \<open>map\<close>, else the mapped and filtered entries.
\<close>

definition mkReferences :: "ChunksValue option \<Rightarrow> Error + Reference list option" where
  "mkReferences groundingChunks' =
     (case groundingChunks' of
        None \<Rightarrow> Inr None
      | Some NotAnArray \<Rightarrow> Inl TypeError
      | Some (ChunkArray entries) \<Rightarrow>
          (case mapChunks entries of
             Inl e \<Rightarrow> Inl e
           | Inr refs \<Rightarrow> Inr (Some (filter keepRef refs))))"

definition textBranch :: "nat \<Rightarrow> Response \<Rightarrow> Error + Message" where
  "textBranch now response =
     (let modelText = resp_text response
      in case mkReferences (responseChunks response) of
           Inl e \<Rightarrow> Inl e
         | Inr references' \<Rightarrow>
             Inr \<lparr>author = MODEL, msg_text = modelText, msg_id = modelId now,
                  references = references', imageUrl = None\<rparr>)"

text \<open>The \<open>try\<close> block from the point where the awaited call settles.\<close>

fun tryBlock :: "nat \<Rightarrow> Request \<Rightarrow> Outcome \<Rightarrow> Error + Message" where
  "tryBlock now req Throws = Inl ProviderThrew"
| "tryBlock now (ImageRequest prompt) (Returns response) = imageBranch now prompt response"
| "tryBlock now (TextRequest contents) (Returns response) = textBranch now response"

definition fallbackText :: jsstring where
  "fallbackText = utf16 ''Sorry, I encountered an error. Please try again.''"

definition errorMessage :: "nat \<Rightarrow> Message" where
  "errorMessage now = \<lparr>author = MODEL, msg_text = Some fallbackText,
     msg_id = toString now @ utf16 ''-error'', references = None, imageUrl = None\<rparr>"

text \<open>
  \<open>sendMessage\<close> from its \<open>await\<close> on: the rest of the \<open>try\<close> block, the \<open>catch\<close>
  and the \<open>finally\<close>. \<open>now\<close> is the value of \<open>Date.now()\<close> on the path taken.
\<close>

definition sendMessage_resume :: "nat \<Rightarrow> Request \<Rightarrow> Outcome \<Rightarrow> State \<Rightarrow> State" where
  "sendMessage_resume now req out st =
     (let st' = (case tryBlock now req out of
                   Inr modelMessage \<Rightarrow> st\<lparr>messages := messages st @ [modelMessage]\<rparr>
                 | Inl e \<Rightarrow> st\<lparr>messages := messages st @ [errorMessage now]\<rparr>)
      in st'\<lparr>isLoading := False\<rparr>)"

text \<open>
  The component over time: its state and the request being awaited, if any. It starts
  mounted; then the input changes, \<open>sendMessage\<close> is called, or the awaited call settles.
\<close>

inductive reachable :: "State \<times> Request option \<Rightarrow> bool" where
  reach_mount: "reachable (mount initialState, None)"
| reach_input: "reachable (st, fl) \<Longrightarrow> reachable (setInput v st, fl)"
| reach_send: "reachable (st, fl) \<Longrightarrow> sendMessage now st = (st', r) \<Longrightarrow>
     reachable (st', case r of None \<Rightarrow> fl | Some q \<Rightarrow> Some q)"
| reach_settle: "reachable (st, Some q) \<Longrightarrow> reachable (sendMessage_resume now q out st, None)"

section \<open>The error taxonomy as the specification words it\<close>

text \<open>
  The specification's \<open>ProviderError\<close>, stated on a request and the outcome of its call:
  the call throws, an image response yields no inline image payload, or the response
  lacks an expected field (the parts of an image response, the text of a text response).
  This predicate follows the specification, not the source; it is what \<open>tryBlock\<close> is
  compared with.
\<close>

definition specProviderError :: "Request \<Rightarrow> Outcome \<Rightarrow> bool" where
  "specProviderError req out =
     (case out of
        Throws \<Rightarrow> True
      | Returns response \<Rightarrow>
          (case req of
             ImageRequest prompt \<Rightarrow>
               (case responseParts response of
                  Inl e \<Rightarrow> True
                | Inr ps \<Rightarrow> list_all (\<lambda>p. inlineData p = None) ps)
           | TextRequest contents \<Rightarrow> resp_text response = None))"

section \<open>Auxiliary facts\<close>

lemma scanParts_last:
  "scanParts ps url =
     (case filter (\<lambda>p. inlineData p \<noteq> None) ps of
        [] \<Rightarrow> url
      | x # xs \<Rightarrow> dataUrlPrefix @ data (the (inlineData (last (x # xs)))))"
proof (induction ps arbitrary: url)
  case Nil
  show ?case by simp
next
  case (Cons p ps)
  show ?case
  proof (cases "inlineData p")
    case None
    then show ?thesis by (simp add: Cons.IH)
  next
    case (Some b)
    then show ?thesis by (simp add: Cons.IH split: list.split)
  qed
qed

lemma scanParts_none:
  "\<forall>p\<in>set ps. inlineData p = None \<Longrightarrow> scanParts ps url = url"
  by (induction ps arbitrary: url) simp_all

lemma dataUrlPrefix_nonempty: "dataUrlPrefix \<noteq> []"
  by (simp add: dataUrlPrefix_def utf16_def)

lemma scanParts_some:
  assumes "\<exists>p\<in>set ps. inlineData p \<noteq> None"
  shows "scanParts ps url =
           dataUrlPrefix @ data (the (inlineData (last (filter (\<lambda>p. inlineData p \<noteq> None) ps))))"
proof -
  from assms have "filter (\<lambda>p. inlineData p \<noteq> None) ps \<noteq> []"
    by (simp add: filter_empty_conv)
  then show ?thesis
    by (simp add: scanParts_last split: list.split)
qed

lemma trim_empty_iff: "trim s = [] \<longleftrightarrow> (\<forall>c\<in>set s. isWhiteSpace c)"
proof
  assume "trim s = []"
  then have "\<forall>c\<in>set (dropWhile isWhiteSpace s). isWhiteSpace c"
    by (simp add: trim_def dropWhile_eq_Nil_conv)
  then have "dropWhile isWhiteSpace s = []"
    using hd_dropWhile [of isWhiteSpace s] hd_in_set [of "dropWhile isWhiteSpace s"] by blast
  then show "\<forall>c\<in>set s. isWhiteSpace c"
    by (simp add: dropWhile_eq_Nil_conv)
next
  assume "\<forall>c\<in>set s. isWhiteSpace c"
  then have "dropWhile isWhiteSpace s = []"
    by (simp add: dropWhile_eq_Nil_conv)
  then have "trim s = rev (dropWhile isWhiteSpace (rev []))"
    by (simp only: trim_def)
  then show "trim s = []"
    by simp
qed

lemma startsWith_split: "startsWith s p \<Longrightarrow> p @ drop (length p) s = s"
  unfolding startsWith_def by (metis append_take_drop_id)

lemma imaginePrefix_length: "length imaginePrefix = 9"
  by (simp add: imaginePrefix_def utf16_def)

lemma startsWith_nonempty: "startsWith s imaginePrefix \<Longrightarrow> s \<noteq> []"
  by (auto simp: startsWith_def imaginePrefix_def utf16_def)

lemma imageBranch_cases:
  "imageBranch now prompt response =
     (case responseParts response of
        Inl e \<Rightarrow> Inl e
      | Inr ps \<Rightarrow>
          if \<exists>p\<in>set ps. inlineData p \<noteq> None
          then Inr \<lparr>author = MODEL, msg_text = Some (caption prompt), msg_id = modelId now,
                    references = None,
                    imageUrl = Some (dataUrlPrefix @
                      data (the (inlineData (last (filter (\<lambda>p. inlineData p \<noteq> None) ps)))))\<rparr>
          else Inl NoImageData)"
proof (cases "responseParts response")
  case (Inl e)
  then show ?thesis by (simp add: imageBranch_def)
next
  case (Inr ps)
  show ?thesis
  proof (cases "\<exists>p\<in>set ps. inlineData p \<noteq> None")
    case True
    then have "scanParts ps [] =
        dataUrlPrefix @ data (the (inlineData (last (filter (\<lambda>p. inlineData p \<noteq> None) ps))))"
      by (rule scanParts_some)
    with True Inr show ?thesis
      by (simp add: imageBranch_def Let_def dataUrlPrefix_nonempty)
  next
    case False
    then have "scanParts ps [] = []"
      by (simp add: scanParts_none)
    with False Inr show ?thesis
      by (simp add: imageBranch_def Let_def)
  qed
qed

lemma responseParts_error: "responseParts response = Inl e \<Longrightarrow> e = TypeError"
  by (auto simp: responseParts_def split: option.splits list.splits)

lemma tryBlock_shape:
  assumes "tryBlock now req out = Inr m"
  shows "references m = None \<or> imageUrl m = None"
proof (cases out)
  case Throws
  with assms show ?thesis by simp
next
  case (Returns response)
  show ?thesis
  proof (cases req)
    case (ImageRequest prompt)
    with Returns assms show ?thesis
      by (auto simp: imageBranch_cases split: sum.splits if_splits)
  next
    case (TextRequest contents)
    with Returns assms show ?thesis
      by (auto simp: textBranch_def Let_def split: sum.splits)
  qed
qed

lemma resume_messages:
  "messages (sendMessage_resume now req out st) =
     messages st @ [case tryBlock now req out of Inr m \<Rightarrow> m | Inl e \<Rightarrow> errorMessage now]"
  by (simp add: sendMessage_resume_def Let_def split: sum.split)


lemma sendMessage_messages:
  "set (messages (fst (sendMessage now st))) \<subseteq> insert (userMessage now (input st)) (set (messages st))"
  by (auto simp: sendMessage_def Let_def)

lemma no_both_invariant:
  "reachable c \<Longrightarrow> \<forall>m\<in>set (messages (fst c)). references m = None \<or> imageUrl m = None"
proof (induction rule: reachable.induct)
  case reach_mount
  show ?case by (simp add: mount_def greeting_def)
next
  case (reach_input st fl v)
  then show ?case by (simp add: setInput_def)
next
  case (reach_send st fl now st' r)
  have "set (messages st') \<subseteq> insert (userMessage now (input st)) (set (messages st))"
    using sendMessage_messages [of now st] reach_send.hyps(2) by simp
  moreover have "references (userMessage now (input st)) = None"
    by (simp add: userMessage_def)
  ultimately show ?case
    using reach_send.IH by auto
next
  case (reach_settle st q now out)
  show ?case
  proof (cases "tryBlock now q out")
    case (Inl e)
    with reach_settle.IH show ?thesis
      by (auto simp: resume_messages errorMessage_def)
  next
    case (Inr m)
    with reach_settle.IH tryBlock_shape [OF Inr] show ?thesis
      by (auto simp: resume_messages)
  qed
qed

lemma scanParts_append: "scanParts (xs @ ys) url = scanParts ys (scanParts xs url)"
  by (induction xs arbitrary: url) simp_all

lemma truthy_iff: "truthy v \<longleftrightarrow> v \<notin> {None, Some []}"
  by (cases v) simp_all

lemma keepRef_iff: "keepRef r \<longleftrightarrow> uri r \<notin> {None, Some []} \<and> title r \<notin> {None, Some []}"
  by (simp only: keepRef_def truthy_iff)

lemma mapChunks_present: "mapChunks (map Some chunks) = Inr (map chunkRef chunks)"
  by (induction chunks) simp_all

lemma mapChunks_nullish: "None \<in> set entries \<Longrightarrow> mapChunks entries = Inl TypeError"
proof (induction entries rule: mapChunks.induct)
  case 1
  then show ?case by simp
next
  case (2 rest)
  show ?case by simp
next
  case (3 chunk rest)
  then show ?case by simp
qed

lemma entries_present: "None \<notin> set entries \<Longrightarrow> \<exists>chunks. entries = map Some chunks"
proof (induction entries)
  case Nil
  show ?case by simp
next
  case (Cons e entries)
  then obtain chunks where "entries = map Some chunks"
    by auto
  moreover from Cons.prems obtain chunk where "e = Some chunk"
    by (cases e) auto
  ultimately have "e # entries = map Some (chunk # chunks)"
    by simp
  then show ?case
    by (rule exI)
qed

lemma textBranch_cases:
  "textBranch now response =
     (case responseChunks response of
        None \<Rightarrow>
          Inr \<lparr>author = MODEL, msg_text = resp_text response, msg_id = modelId now,
               references = None, imageUrl = None\<rparr>
      | Some NotAnArray \<Rightarrow> Inl TypeError
      | Some (ChunkArray entries) \<Rightarrow>
          if None \<in> set entries then Inl TypeError
          else Inr \<lparr>author = MODEL, msg_text = resp_text response, msg_id = modelId now,
                    references = Some (filter keepRef (map (\<lambda>e. chunkRef (the e)) entries)),
                    imageUrl = None\<rparr>)"
proof (cases "responseChunks response")
  case None
  then show ?thesis
    by (simp add: textBranch_def mkReferences_def)
next
  case (Some v)
  show ?thesis
  proof (cases v)
    case NotAnArray
    with Some show ?thesis
      by (simp add: textBranch_def mkReferences_def)
  next
    case (ChunkArray entries)
    show ?thesis
    proof (cases "None \<in> set entries")
      case True
      with Some ChunkArray show ?thesis
        by (simp add: textBranch_def mkReferences_def mapChunks_nullish)
    next
      case False
      then obtain chunks where c: "entries = map Some chunks"
        using entries_present by blast
      with Some ChunkArray False show ?thesis
        by (simp add: textBranch_def mkReferences_def mapChunks_present comp_def)
    qed
  qed
qed

lemma tryBlock_fails_iff:
  "isl (tryBlock now req out) \<longleftrightarrow>
     out = Throws
     \<or> (\<exists>prompt response. req = ImageRequest prompt \<and> out = Returns response \<and>
          (\<forall>ps. responseParts response = Inr ps \<longrightarrow> (\<forall>p\<in>set ps. inlineData p = None)))
     \<or> (\<exists>contents response. req = TextRequest contents \<and> out = Returns response \<and>
          (responseChunks response = Some NotAnArray
           \<or> (\<exists>entries. responseChunks response = Some (ChunkArray entries) \<and> None \<in> set entries)))"
proof (cases out)
  case Throws
  then show ?thesis by simp
next
  case (Returns response)
  show ?thesis
  proof (cases req)
    case (ImageRequest prompt)
    with Returns show ?thesis
      by (cases "responseParts response") (auto simp: imageBranch_cases)
  next
    case (TextRequest contents)
    with Returns show ?thesis
      by (auto simp: textBranch_cases split: option.splits ChunksValue.splits)
  qed
qed

lemma responseChunks_raw:
  "candidates response = Some (c # cs) \<Longrightarrow> groundingMetadata c = Some gm \<Longrightarrow>
     responseChunks response = groundingChunks gm"
  by (simp add: responseChunks_def)

lemma responseChunks_absent:
  "candidates response = None \<or> candidates response = Some [] \<or>
     (\<exists>c cs. candidates response = Some (c # cs) \<and>
        (groundingMetadata c = None \<or>
         (\<exists>gm. groundingMetadata c = Some gm \<and> groundingChunks gm = None)))
   \<Longrightarrow> responseChunks response = None"
  by (auto simp: responseChunks_def)

lemma responseChunks_Some_raw:
  "responseChunks response = Some v \<Longrightarrow>
     \<exists>c cs gm. candidates response = Some (c # cs) \<and> groundingMetadata c = Some gm \<and>
       groundingChunks gm = Some v"
  by (auto simp: responseChunks_def split: option.splits list.splits)

lemma keepRef_chunkRef:
  "filter keepRef (map chunkRef chunks) =
     filter (\<lambda>r. uri r \<notin> {None, Some []} \<and> title r \<notin> {None, Some []})
       (map (\<lambda>chunk. \<lparr>uri = (case web chunk of None \<Rightarrow> None | Some w \<Rightarrow> web_uri w),
                       title = (case web chunk of None \<Rightarrow> None | Some w \<Rightarrow> web_title w)\<rparr>)
          chunks)"
proof -
  have "chunkRef = (\<lambda>chunk. \<lparr>uri = (case web chunk of None \<Rightarrow> None | Some w \<Rightarrow> web_uri w),
                       title = (case web chunk of None \<Rightarrow> None | Some w \<Rightarrow> web_title w)\<rparr>)"
    by (rule ext) (simp add: chunkRef_def)
  moreover have "keepRef = (\<lambda>r. uri r \<notin> {None, Some []} \<and> title r \<notin> {None, Some []})"
    by (rule ext) (simp only: keepRef_iff)
  ultimately show ?thesis
    by simp
qed

section \<open>The claims\<close>

text \<open>
  C1. While a request is in flight (\<open>isLoading\<close> holds), a call of \<open>sendMessage\<close> does
  nothing, whatever the input field holds: the state, and so the conversation and the
  flag, is unchanged, and no request is issued.
\<close>

theorem submit_while_loading_is_noop:
  assumes "isLoading st"
  shows "sendMessage now (setInput v st) = (setInput v st, None)
       \<and> messages (fst (sendMessage now (setInput v st))) = messages st
       \<and> isLoading (fst (sendMessage now (setInput v st)))
       \<and> snd (sendMessage now (setInput v st)) = None"
  using assms by (simp add: sendMessage_def setInput_def)

theorem submit_while_loading_is_noop_witness:
  "isLoading (fst (sendMessage 1 (setInput (utf16 ''hello'') (mount initialState))))
   \<and> snd (sendMessage 1 (setInput (utf16 ''hello'') (mount initialState))) \<noteq> None
   \<and> sendMessage 2 (setInput (utf16 ''/imagine a cat'')
        (fst (sendMessage 1 (setInput (utf16 ''hello'') (mount initialState)))))
      = (setInput (utf16 ''/imagine a cat'')
           (fst (sendMessage 1 (setInput (utf16 ''hello'') (mount initialState)))), None)"
proof -
  have l: "isLoading (fst (sendMessage 1 (setInput (utf16 ''hello'') (mount initialState))))"
    by (simp add: sendMessage_def setInput_def mount_def initialState_def trim_def
        isWhiteSpace_def utf16_def)
  have r: "snd (sendMessage 1 (setInput (utf16 ''hello'') (mount initialState))) \<noteq> None"
    by (simp add: sendMessage_def setInput_def mount_def initialState_def trim_def
        isWhiteSpace_def utf16_def)
  show ?thesis
    using l r submit_while_loading_is_noop [OF l, of 2 "utf16 ''/imagine a cat''"] by simp
qed

text \<open>
  C10. An accepted submission appends a USER message whose text is the input field as it
  stands: not trimmed, and with a \<open>/imagine\<close> prefix kept.
\<close>

theorem user_message_keeps_raw_input:
  assumes "trim (input st) \<noteq> []" and "\<not> isLoading st"
  shows "messages (fst (sendMessage now st)) =
           messages st @ [\<lparr>author = USER, msg_text = Some (input st), msg_id = toString now,
                            references = None, imageUrl = None\<rparr>]"
  using assms by (simp add: sendMessage_def userMessage_def)

theorem user_message_keeps_raw_input_witness:
  "trim (utf16 ''  /imagine a cat '') \<noteq> []
   \<and> trim (utf16 ''  /imagine a cat '') \<noteq> utf16 ''  /imagine a cat ''
   \<and> messages (fst (sendMessage 7 \<lparr>messages = [], input = utf16 ''  /imagine a cat '', isLoading = False\<rparr>))
       = [\<lparr>author = USER, msg_text = Some (utf16 ''  /imagine a cat ''), msg_id = toString 7,
           references = None, imageUrl = None\<rparr>]"
proof -
  have t: "trim (utf16 ''  /imagine a cat '') = utf16 ''/imagine a cat''"
    by (simp add: trim_def isWhiteSpace_def utf16_def)
  have n: "trim (input \<lparr>messages = [], input = utf16 ''  /imagine a cat '', isLoading = False\<rparr>) \<noteq> []"
    by (simp add: t) (simp add: utf16_def)
  have i: "\<not> isLoading \<lparr>messages = [], input = utf16 ''  /imagine a cat '', isLoading = False\<rparr>"
    by simp
  show ?thesis
    using user_message_keeps_raw_input [OF n i, of 7] n by (simp add: t) (simp add: utf16_def)
qed

text \<open>
  C9. A submission that is empty or consists of white space only is rejected by the guard
  of \<open>sendMessage\<close>: the state is unchanged (no USER message, the flag as it was) and no
  request is issued. The guard tests nothing else.
\<close>

theorem blank_input_is_rejected:
  assumes "\<forall>c\<in>set (input st). isWhiteSpace c"
  shows "sendMessage now st = (st, None)"
proof -
  from assms have "trim (input st) = []"
    by (simp add: trim_empty_iff)
  then show ?thesis
    by (simp add: sendMessage_def)
qed

theorem blank_input_is_rejected_witness:
  "list_all isWhiteSpace (utf16 ''   '')
   \<and> sendMessage 5 \<lparr>messages = [greeting], input = utf16 ''   '', isLoading = False\<rparr>
       = (\<lparr>messages = [greeting], input = utf16 ''   '', isLoading = False\<rparr>, None)
   \<and> sendMessage 5 \<lparr>messages = [greeting], input = [], isLoading = False\<rparr>
       = (\<lparr>messages = [greeting], input = [], isLoading = False\<rparr>, None)"
proof -
  have w: "\<forall>c\<in>set (input \<lparr>messages = [greeting], input = utf16 ''   '', isLoading = False\<rparr>). isWhiteSpace c"
    by (simp add: utf16_def isWhiteSpace_def)
  have e: "\<forall>c\<in>set (input \<lparr>messages = [greeting], input = [], isLoading = False\<rparr>). isWhiteSpace c"
    by simp
  from w have "list_all isWhiteSpace (utf16 ''   '')"
    by (simp add: list_all_iff)
  then show ?thesis
    using blank_input_is_rejected [OF w, of 5] blank_input_is_rejected [OF e, of 5] by simp
qed

text \<open>
  C9, the bare command token. The input \<open>/imagine\<close> with nothing after it is not empty
  after trimming, so it passes the guard; it does not start with \<open>/imagine\<close> and a
  space, so it is sent as a text request.
\<close>

theorem bare_imagine_is_accepted_counterexample:
  "sendMessage 5 \<lparr>messages = [greeting], input = utf16 ''/imagine'', isLoading = False\<rparr>
     = (\<lparr>messages = [greeting, userMessage 5 (utf16 ''/imagine'')], input = [], isLoading = True\<rparr>,
        Some (TextRequest (persona @ utf16 ''/imagine'')))"
proof -
  have t: "trim (utf16 ''/imagine'') = utf16 ''/imagine''"
    by (simp add: trim_def isWhiteSpace_def utf16_def)
  have n: "utf16 ''/imagine'' \<noteq> []"
    by (simp add: utf16_def)
  have i: "\<not> isImagePrompt (utf16 ''/imagine'')"
    unfolding isImagePrompt_def t by (simp add: startsWith_def imaginePrefix_def utf16_def)
  show ?thesis
    by (simp add: sendMessage_def Let_def t n buildRequest_def i)
qed

text \<open>
  C4. An accepted input whose trimmed text does not begin with \<open>/imagine\<close> and a space
  is a text request, and its contents are the persona instruction followed by the input
  as submitted, untrimmed; that is the trimmed input only when trimming changes nothing.
\<close>

theorem text_mode_sends_raw_input:
  assumes "\<not> startsWith (trim (input st)) (utf16 ''/imagine '')"
    and "trim (input st) \<noteq> []" and "\<not> isLoading st"
  shows "\<not> isImagePrompt (input st)
       \<and> snd (sendMessage now st) = Some (TextRequest (persona @ input st))
       \<and> (trim (input st) = input st \<longrightarrow>
            snd (sendMessage now st) = Some (TextRequest (persona @ trim (input st))))"
proof -
  from assms(1) have i: "\<not> isImagePrompt (input st)"
    by (simp add: isImagePrompt_def imaginePrefix_def)
  then have b: "buildRequest (input st) = TextRequest (persona @ input st)"
    by (simp add: buildRequest_def)
  from assms(2,3) have "snd (sendMessage now st) = Some (buildRequest (input st))"
    by (simp add: sendMessage_def Let_def)
  with b have r: "snd (sendMessage now st) = Some (TextRequest (persona @ input st))"
    by simp
  from i r show ?thesis
    by metis
qed

theorem text_mode_sends_raw_input_witness:
  "\<not> startsWith (trim (input \<lparr>messages = [greeting], input = utf16 ''hi there '', isLoading = False\<rparr>)) (utf16 ''/imagine '')
   \<and> trim (input \<lparr>messages = [greeting], input = utf16 ''hi there '', isLoading = False\<rparr>) \<noteq> []
   \<and> snd (sendMessage 5 \<lparr>messages = [greeting], input = utf16 ''hi there '', isLoading = False\<rparr>)
       = Some (TextRequest (persona @ utf16 ''hi there ''))"
proof -
  have t: "trim (utf16 ''hi there '') = utf16 ''hi there''"
    by (simp add: trim_def isWhiteSpace_def utf16_def)
  have s: "\<not> startsWith (trim (input \<lparr>messages = [greeting], input = utf16 ''hi there '', isLoading = False\<rparr>)) (utf16 ''/imagine '')"
    by (simp add: t) (simp add: startsWith_def utf16_def)
  have n: "trim (input \<lparr>messages = [greeting], input = utf16 ''hi there '', isLoading = False\<rparr>) \<noteq> []"
    by (simp add: t) (simp add: utf16_def)
  have i: "\<not> isLoading \<lparr>messages = [greeting], input = utf16 ''hi there '', isLoading = False\<rparr>"
    by simp
  show ?thesis
    using s n text_mode_sends_raw_input [OF s n i, of 5] by simp
qed

text \<open>
  C4, leading white space. For the input \<open>hi\<close> preceded by one space the contents sent
  end with the space and \<open>hi\<close>, not with the trimmed \<open>hi\<close>.
\<close>

theorem text_prompt_is_untrimmed_counterexample:
  "\<not> startsWith (trim (utf16 '' hi'')) (utf16 ''/imagine '')
   \<and> snd (sendMessage 5 \<lparr>messages = [greeting], input = utf16 '' hi'', isLoading = False\<rparr>)
       = Some (TextRequest (persona @ utf16 '' hi''))
   \<and> TextRequest (persona @ utf16 '' hi'') \<noteq> TextRequest (persona @ trim (utf16 '' hi''))"
proof -
  have t: "trim (utf16 '' hi'') = utf16 ''hi''"
    by (simp add: trim_def isWhiteSpace_def utf16_def)
  have n: "utf16 ''hi'' \<noteq> []" "utf16 '' hi'' \<noteq> utf16 ''hi''"
    by (simp_all add: utf16_def)
  have s: "\<not> startsWith (utf16 ''hi'') (utf16 ''/imagine '')"
    by (simp add: startsWith_def utf16_def)
  then have i: "\<not> isImagePrompt (utf16 '' hi'')"
    by (simp add: isImagePrompt_def t imaginePrefix_def)
  show ?thesis
    using s by (simp add: sendMessage_def Let_def t n buildRequest_def i)
qed



text \<open>
  C3. An accepted input whose trimmed text begins with \<open>/imagine\<close> and a space is an
  image prompt; the prompt sent is the trimmed text without these nine code units; and
  when the response carries inline image data, the MODEL message appended after the USER
  message has the text \<open>Here is my take on:\<close> followed by the prompt in double quotes.
\<close>

theorem imagine_prefix_selects_image_mode:
  assumes "startsWith (trim (input st)) (utf16 ''/imagine '')" and "\<not> isLoading st"
  shows \<open>isImagePrompt (input st)
       \<and> utf16 ''/imagine '' @ drop 9 (trim (input st)) = trim (input st)
       \<and> snd (sendMessage now st) = Some (ImageRequest (drop 9 (trim (input st))))
       \<and> (responseParts response = Inr ps \<and> (\<exists>p\<in>set ps. inlineData p \<noteq> None) \<longrightarrow>
            (\<exists>m. tryBlock now' (ImageRequest (drop 9 (trim (input st)))) (Returns response) = Inr m
               \<and> author m = MODEL
               \<and> msg_text m =
                   Some (utf16 ''Here is my take on: "'' @ drop 9 (trim (input st)) @ utf16 ''"'')
               \<and> messages (sendMessage_resume now' (ImageRequest (drop 9 (trim (input st))))
                     (Returns response) (fst (sendMessage now st)))
                   = messages st @ [userMessage now (input st), m]))\<close>
proof -
  from assms(1) have s: "startsWith (trim (input st)) imaginePrefix"
    by (simp add: imaginePrefix_def)
  then have i: "isImagePrompt (input st)"
    by (simp add: isImagePrompt_def)
  from s have n: "trim (input st) \<noteq> []"
    by (rule startsWith_nonempty)
  from startsWith_split [OF s]
  have e: "utf16 ''/imagine '' @ drop 9 (trim (input st)) = trim (input st)"
    by (simp add: imaginePrefix_length) (simp add: imaginePrefix_def)
  from i have b: "buildRequest (input st) = ImageRequest (drop 9 (trim (input st)))"
    by (simp add: buildRequest_def substring_def imaginePrefix_length)
  from n assms(2) have f: "fst (sendMessage now st) =
      st\<lparr>messages := messages st @ [userMessage now (input st)], input := [], isLoading := True\<rparr>"
    and r: "snd (sendMessage now st) = Some (buildRequest (input st))"
    by (simp_all add: sendMessage_def Let_def)
  have \<open>\<exists>m. tryBlock now' (ImageRequest (drop 9 (trim (input st)))) (Returns response) = Inr m
               \<and> author m = MODEL
               \<and> msg_text m =
                   Some (utf16 ''Here is my take on: "'' @ drop 9 (trim (input st)) @ utf16 ''"'')
               \<and> messages (sendMessage_resume now' (ImageRequest (drop 9 (trim (input st))))
                     (Returns response) (fst (sendMessage now st)))
                   = messages st @ [userMessage now (input st), m]\<close>
    if p: "responseParts response = Inr ps" and q: "\<exists>p\<in>set ps. inlineData p \<noteq> None"
  proof -
    from p q obtain m where
      m: "tryBlock now' (ImageRequest (drop 9 (trim (input st)))) (Returns response) = Inr m"
      and c: "author m = MODEL" "msg_text m = Some (caption (drop 9 (trim (input st))))"
      by (simp add: imageBranch_cases)
    from m have "messages (sendMessage_resume now' (ImageRequest (drop 9 (trim (input st))))
                     (Returns response) (fst (sendMessage now st)))
                   = messages st @ [userMessage now (input st), m]"
      by (simp add: resume_messages f)
    with m c show ?thesis
      by (simp add: caption_def)
  qed
  with i e r b show ?thesis
    by simp
qed

theorem imagine_prefix_selects_image_mode_witness:
  \<open>startsWith (trim (input \<lparr>messages = [greeting],
       input = utf16 ''/imagine a minimalist logo for a coffee shop'', isLoading = False\<rparr>))
     (utf16 ''/imagine '')
   \<and> snd (sendMessage 1 \<lparr>messages = [greeting],
       input = utf16 ''/imagine a minimalist logo for a coffee shop'', isLoading = False\<rparr>)
     = Some (ImageRequest (utf16 ''a minimalist logo for a coffee shop''))
   \<and> (\<exists>m. tryBlock 2 (ImageRequest (utf16 ''a minimalist logo for a coffee shop''))
         (Returns \<lparr>resp_text = None,
            candidates = Some [\<lparr>content = Some \<lparr>parts = Some
                [\<lparr>inlineData = Some \<lparr>data = utf16 ''iVBO''\<rparr>\<rparr>]\<rparr>,
              groundingMetadata = None\<rparr>]\<rparr>) = Inr m
        \<and> msg_text m
          = Some (utf16 ''Here is my take on: "a minimalist logo for a coffee shop"''))\<close>
proof -
  have t: "trim (utf16 ''/imagine a minimalist logo for a coffee shop'')
      = utf16 ''/imagine a minimalist logo for a coffee shop''"
    by (simp add: trim_def isWhiteSpace_def utf16_def)
  have d: "drop 9 (utf16 ''/imagine a minimalist logo for a coffee shop'')
      = utf16 ''a minimalist logo for a coffee shop''"
    by (simp add: utf16_def)
  have c: \<open>utf16 ''Here is my take on: "'' @ utf16 ''a minimalist logo for a coffee shop'' @ utf16 ''"''
      = utf16 ''Here is my take on: "a minimalist logo for a coffee shop"''\<close>
    by (simp add: utf16_def)
  have s: "startsWith (trim (input \<lparr>messages = [greeting],
       input = utf16 ''/imagine a minimalist logo for a coffee shop'', isLoading = False\<rparr>))
     (utf16 ''/imagine '')"
    by (simp add: t) (simp add: startsWith_def utf16_def)
  have l: "\<not> isLoading \<lparr>messages = [greeting],
       input = utf16 ''/imagine a minimalist logo for a coffee shop'', isLoading = False\<rparr>"
    by simp
  have p: "responseParts \<lparr>resp_text = None,
            candidates = Some [\<lparr>content = Some \<lparr>parts = Some
                [\<lparr>inlineData = Some \<lparr>data = utf16 ''iVBO''\<rparr>\<rparr>]\<rparr>,
              groundingMetadata = None\<rparr>]\<rparr>
      = Inr [\<lparr>inlineData = Some \<lparr>data = utf16 ''iVBO''\<rparr>\<rparr>]
     \<and> (\<exists>p\<in>set [\<lparr>inlineData = Some \<lparr>data = utf16 ''iVBO''\<rparr>\<rparr>]. inlineData p \<noteq> None)"
    by (simp add: responseParts_def)
  show ?thesis
    using s p imagine_prefix_selects_image_mode [OF s l,
        where response = "\<lparr>resp_text = None,
            candidates = Some [\<lparr>content = Some \<lparr>parts = Some
                [\<lparr>inlineData = Some \<lparr>data = utf16 ''iVBO''\<rparr>\<rparr>]\<rparr>,
              groundingMetadata = None\<rparr>]\<rparr>"
          and ps = "[\<lparr>inlineData = Some \<lparr>data = utf16 ''iVBO''\<rparr>\<rparr>]"
          and now = 1 and now' = 2]
    by (simp add: t d c) blast
qed

text \<open>
  C5. When the parts of an image response contain inline data, the message's image URL
  is \<open>data:image/png;base64,\<close> followed by the data of the last part that carries
  any: the loop has no \<open>break\<close>, so each such part overwrites the one before.
\<close>

theorem image_url_from_last_inline_part:
  assumes "responseParts response = Inr ps" and "\<exists>p\<in>set ps. inlineData p \<noteq> None"
  shows "\<exists>m pre p blob post.
           ps = pre @ p # post \<and> inlineData p = Some blob \<and> (\<forall>q\<in>set post. inlineData q = None)
         \<and> tryBlock now (ImageRequest prompt) (Returns response) = Inr m
         \<and> imageUrl m = Some (utf16 ''data:image/png;base64,'' @ data blob)"
proof -
  from assms(2) obtain pre p post where
    d: "ps = pre @ p # post" and i: "inlineData p \<noteq> None"
    and n: "\<forall>q\<in>set post. \<not> inlineData q \<noteq> None"
    using split_list_last_prop [of ps "\<lambda>p. inlineData p \<noteq> None"] by blast
  from i obtain blob where b: "inlineData p = Some blob"
    by blast
  from n have n': "\<forall>q\<in>set post. inlineData q = None"
    by simp
  have "scanParts ps [] = dataUrlPrefix @ data blob"
    by (simp add: d scanParts_append b scanParts_none [OF n'])
  then have "tryBlock now (ImageRequest prompt) (Returns response) =
      Inr \<lparr>author = MODEL, msg_text = Some (caption prompt), msg_id = modelId now,
           references = None, imageUrl = Some (utf16 ''data:image/png;base64,'' @ data blob)\<rparr>"
    using assms(1) by (simp add: imageBranch_def Let_def dataUrlPrefix_nonempty)
      (simp add: dataUrlPrefix_def)
  with d b n' show ?thesis
    by force
qed

theorem image_url_from_last_inline_part_witness:
  "(\<exists>p\<in>set [\<lparr>inlineData = None\<rparr>, \<lparr>inlineData = Some \<lparr>data = utf16 ''iVBO''\<rparr>\<rparr>]. inlineData p \<noteq> None)
   \<and> (\<exists>m. tryBlock 3 (ImageRequest (utf16 ''cat''))
         (Returns \<lparr>resp_text = None,
            candidates = Some [\<lparr>content = Some \<lparr>parts = Some
                [\<lparr>inlineData = None\<rparr>, \<lparr>inlineData = Some \<lparr>data = utf16 ''iVBO''\<rparr>\<rparr>]\<rparr>,
              groundingMetadata = None\<rparr>]\<rparr>) = Inr m
        \<and> imageUrl m = Some (utf16 ''data:image/png;base64,iVBO''))"
proof -
  have r: "responseParts \<lparr>resp_text = None,
            candidates = Some [\<lparr>content = Some \<lparr>parts = Some
                [\<lparr>inlineData = None\<rparr>, \<lparr>inlineData = Some \<lparr>data = utf16 ''iVBO''\<rparr>\<rparr>]\<rparr>,
              groundingMetadata = None\<rparr>]\<rparr>
      = Inr [\<lparr>inlineData = None\<rparr>, \<lparr>inlineData = Some \<lparr>data = utf16 ''iVBO''\<rparr>\<rparr>]"
    by (simp add: responseParts_def)
  have e: "\<exists>p\<in>set [\<lparr>inlineData = None\<rparr>, \<lparr>inlineData = Some \<lparr>data = utf16 ''iVBO''\<rparr>\<rparr>]. inlineData p \<noteq> None"
    by simp
  from image_url_from_last_inline_part [OF r e, of 3 "utf16 ''cat''"]
  obtain m pre p blob post where
    d: "[\<lparr>inlineData = None\<rparr>, \<lparr>inlineData = Some \<lparr>data = utf16 ''iVBO''\<rparr>\<rparr>] = pre @ p # post"
    and b: "inlineData p = Some blob" and n: "\<forall>q\<in>set post. inlineData q = None"
    and t: "tryBlock 3 (ImageRequest (utf16 ''cat''))
         (Returns \<lparr>resp_text = None,
            candidates = Some [\<lparr>content = Some \<lparr>parts = Some
                [\<lparr>inlineData = None\<rparr>, \<lparr>inlineData = Some \<lparr>data = utf16 ''iVBO''\<rparr>\<rparr>]\<rparr>,
              groundingMetadata = None\<rparr>]\<rparr>) = Inr m"
    and u: "imageUrl m = Some (utf16 ''data:image/png;base64,'' @ data blob)"
    by blast
  from t have "imageUrl m = Some (utf16 ''data:image/png;base64,iVBO'')"
    by (auto simp: imageBranch_def responseParts_def Let_def dataUrlPrefix_def utf16_def)
  with e t show ?thesis
    by blast
qed

text \<open>
  C5, two parts with inline data. The URL is built from the second payload, not from the
  first.
\<close>

theorem last_inline_part_wins_counterexample:
  "tryBlock 3 (ImageRequest (utf16 ''cat''))
     (Returns \<lparr>resp_text = None,
        candidates = Some [\<lparr>content = Some \<lparr>parts = Some
            [\<lparr>inlineData = Some \<lparr>data = utf16 ''AAAA''\<rparr>\<rparr>,
             \<lparr>inlineData = Some \<lparr>data = utf16 ''BBBB''\<rparr>\<rparr>]\<rparr>,
          groundingMetadata = None\<rparr>]\<rparr>)
   = Inr \<lparr>author = MODEL, msg_text = Some (caption (utf16 ''cat'')), msg_id = modelId 3,
          references = None, imageUrl = Some (utf16 ''data:image/png;base64,BBBB'')\<rparr>
   \<and> utf16 ''data:image/png;base64,BBBB'' \<noteq> utf16 ''data:image/png;base64,AAAA''"
  by (simp add: imageBranch_def responseParts_def Let_def dataUrlPrefix_def utf16_def)

text \<open>
  C6. The claim counts a text response without text among the malformed responses that
  fail and take the fallback path. On that input the \<open>try\<close> block does not fail: it
  stores the missing text in a MODEL message, although the interface declares \<open>text\<close> a
  string, and appends that message instead of the fallback. An image response without a
  payload, the other missing field the claim names, does end in the fallback.
\<close>

theorem text_without_text_is_appended:
  "specProviderError (TextRequest (persona @ utf16 ''hi''))
     (Returns \<lparr>resp_text = None, candidates = None\<rparr>)
   \<and> tryBlock 9 (TextRequest (persona @ utf16 ''hi''))
       (Returns \<lparr>resp_text = None, candidates = None\<rparr>)
     = Inr \<lparr>author = MODEL, msg_text = None, msg_id = modelId 9,
            references = None, imageUrl = None\<rparr>
   \<and> sendMessage_resume 9 (TextRequest (persona @ utf16 ''hi''))
       (Returns \<lparr>resp_text = None, candidates = None\<rparr>)
       \<lparr>messages = [greeting, userMessage 8 (utf16 ''hi'')], input = [], isLoading = True\<rparr>
     = \<lparr>messages = [greeting, userMessage 8 (utf16 ''hi''),
           \<lparr>author = MODEL, msg_text = None, msg_id = modelId 9,
            references = None, imageUrl = None\<rparr>],
         input = [], isLoading = False\<rparr>
   \<and> \<lparr>author = MODEL, msg_text = None, msg_id = modelId 9,
         references = None, imageUrl = None\<rparr> \<noteq> errorMessage 9
   \<and> specProviderError (ImageRequest (utf16 ''cat''))
       (Returns \<lparr>resp_text = None,
          candidates = Some [\<lparr>content = Some \<lparr>parts = Some [\<lparr>inlineData = None\<rparr>]\<rparr>,
                              groundingMetadata = None\<rparr>]\<rparr>)
   \<and> sendMessage_resume 9 (ImageRequest (utf16 ''cat''))
       (Returns \<lparr>resp_text = None,
          candidates = Some [\<lparr>content = Some \<lparr>parts = Some [\<lparr>inlineData = None\<rparr>]\<rparr>,
                              groundingMetadata = None\<rparr>]\<rparr>)
       \<lparr>messages = [greeting, userMessage 8 (utf16 ''/imagine cat'')], input = [], isLoading = True\<rparr>
     = \<lparr>messages = [greeting, userMessage 8 (utf16 ''/imagine cat''), errorMessage 9],
         input = [], isLoading = False\<rparr>"
  by (simp add: specProviderError_def textBranch_def responseChunks_def mkReferences_def
      imageBranch_def responseParts_def Let_def sendMessage_resume_def errorMessage_def)

text \<open>
  C7. A text response is normalized from \<open>candidates[0].groundingMetadata.groundingChunks\<close>
  of the raw response. When that is an array of chunks, the message's references are the
  pairs of each chunk's \<open>web.uri\<close> and \<open>web.title\<close>, in order, without the pairs whose
  uri or title is missing or empty; when every pair is such, they are the empty list.
  When there are no candidates, no grounding metadata or no chunk list, the message has
  no \<open>references\<close>. Every message built falls under one of the two cases, and each of
  its references has a non-empty uri and a non-empty title.
\<close>

theorem text_references_filtered:
  "(candidates response = Some (c # cs) \<and> groundingMetadata c = Some gm \<and>
      groundingChunks gm = Some (ChunkArray (map Some chunks)) \<longrightarrow>
      tryBlock now (TextRequest contents) (Returns response) =
        Inr \<lparr>author = MODEL, msg_text = resp_text response, msg_id = modelId now,
             references = Some
               (filter (\<lambda>r. uri r \<notin> {None, Some []} \<and> title r \<notin> {None, Some []})
                  (map (\<lambda>chunk.
                          \<lparr>uri = (case web chunk of None \<Rightarrow> None | Some w \<Rightarrow> web_uri w),
                           title = (case web chunk of None \<Rightarrow> None | Some w \<Rightarrow> web_title w)\<rparr>)
                     chunks)),
             imageUrl = None\<rparr>)
   \<and> (candidates response = Some (c # cs) \<and> groundingMetadata c = Some gm \<and>
      groundingChunks gm = Some (ChunkArray (map Some chunks)) \<and>
      (\<forall>chunk\<in>set chunks.
         case web chunk of
           None \<Rightarrow> True
         | Some w \<Rightarrow> web_uri w \<in> {None, Some []} \<or> web_title w \<in> {None, Some []}) \<longrightarrow>
      tryBlock now (TextRequest contents) (Returns response) =
        Inr \<lparr>author = MODEL, msg_text = resp_text response, msg_id = modelId now,
             references = Some [], imageUrl = None\<rparr>)
   \<and> (candidates response = None \<or> candidates response = Some [] \<or>
        (\<exists>c' cs'. candidates response = Some (c' # cs') \<and>
           (groundingMetadata c' = None \<or>
            (\<exists>gm'. groundingMetadata c' = Some gm' \<and> groundingChunks gm' = None))) \<longrightarrow>
      tryBlock now (TextRequest contents) (Returns response) =
        Inr \<lparr>author = MODEL, msg_text = resp_text response, msg_id = modelId now,
             references = None, imageUrl = None\<rparr>)
   \<and> (tryBlock now (TextRequest contents) (Returns response) = Inr m \<longrightarrow>
        (references m = None \<longrightarrow>
           candidates response = None \<or> candidates response = Some [] \<or>
           (\<exists>c' cs'. candidates response = Some (c' # cs') \<and>
              (groundingMetadata c' = None \<or>
               (\<exists>gm'. groundingMetadata c' = Some gm' \<and> groundingChunks gm' = None))))
        \<and> (\<forall>rs. references m = Some rs \<longrightarrow>
             (\<exists>c' cs' gm' chunks'. candidates response = Some (c' # cs') \<and>
                groundingMetadata c' = Some gm' \<and>
                groundingChunks gm' = Some (ChunkArray (map Some chunks')))
             \<and> (\<forall>r\<in>set rs. \<exists>u t. uri r = Some u \<and> u \<noteq> [] \<and> title r = Some t \<and> t \<noteq> [])))"
proof (intro conjI impI)
  assume a: "candidates response = Some (c # cs) \<and> groundingMetadata c = Some gm \<and>
      groundingChunks gm = Some (ChunkArray (map Some chunks))"
  then have "responseChunks response = Some (ChunkArray (map Some chunks))"
    by (simp add: responseChunks_raw)
  then have "textBranch now response =
      Inr \<lparr>author = MODEL, msg_text = resp_text response, msg_id = modelId now,
           references = Some (filter keepRef (map chunkRef chunks)), imageUrl = None\<rparr>"
    by (simp add: textBranch_cases comp_def)
  then show "tryBlock now (TextRequest contents) (Returns response) =
        Inr \<lparr>author = MODEL, msg_text = resp_text response, msg_id = modelId now,
             references = Some
               (filter (\<lambda>r. uri r \<notin> {None, Some []} \<and> title r \<notin> {None, Some []})
                  (map (\<lambda>chunk.
                          \<lparr>uri = (case web chunk of None \<Rightarrow> None | Some w \<Rightarrow> web_uri w),
                           title = (case web chunk of None \<Rightarrow> None | Some w \<Rightarrow> web_title w)\<rparr>)
                     chunks)),
             imageUrl = None\<rparr>"
    by (simp only: tryBlock.simps keepRef_chunkRef)
next
  assume a: "candidates response = Some (c # cs) \<and> groundingMetadata c = Some gm \<and>
      groundingChunks gm = Some (ChunkArray (map Some chunks)) \<and>
      (\<forall>chunk\<in>set chunks.
         case web chunk of
           None \<Rightarrow> True
         | Some w \<Rightarrow> web_uri w \<in> {None, Some []} \<or> web_title w \<in> {None, Some []})"
  then have "responseChunks response = Some (ChunkArray (map Some chunks))"
    by (simp add: responseChunks_raw)
  then have t: "textBranch now response =
      Inr \<lparr>author = MODEL, msg_text = resp_text response, msg_id = modelId now,
           references = Some (filter keepRef (map chunkRef chunks)), imageUrl = None\<rparr>"
    by (simp add: textBranch_cases comp_def)
  from a have "\<forall>chunk\<in>set chunks. \<not> keepRef (chunkRef chunk)"
    by (auto simp: keepRef_iff chunkRef_def split: option.splits)
  then have "filter keepRef (map chunkRef chunks) = []"
    by (simp add: filter_empty_conv)
  with t show "tryBlock now (TextRequest contents) (Returns response) =
        Inr \<lparr>author = MODEL, msg_text = resp_text response, msg_id = modelId now,
             references = Some [], imageUrl = None\<rparr>"
    by simp
next
  assume "candidates response = None \<or> candidates response = Some [] \<or>
        (\<exists>c' cs'. candidates response = Some (c' # cs') \<and>
           (groundingMetadata c' = None \<or>
            (\<exists>gm'. groundingMetadata c' = Some gm' \<and> groundingChunks gm' = None)))"
  then have "responseChunks response = None"
    by (rule responseChunks_absent)
  then show "tryBlock now (TextRequest contents) (Returns response) =
        Inr \<lparr>author = MODEL, msg_text = resp_text response, msg_id = modelId now,
             references = None, imageUrl = None\<rparr>"
    by (simp add: textBranch_cases)
next
  assume t: "tryBlock now (TextRequest contents) (Returns response) = Inr m"
    and n: "references m = None"
  have "responseChunks response = None"
  proof (cases "responseChunks response")
    case None
    then show ?thesis .
  next
    case (Some v)
    with t n show ?thesis
      by (cases v) (auto simp: textBranch_cases split: if_splits)
  qed
  then show "candidates response = None \<or> candidates response = Some [] \<or>
           (\<exists>c' cs'. candidates response = Some (c' # cs') \<and>
              (groundingMetadata c' = None \<or>
               (\<exists>gm'. groundingMetadata c' = Some gm' \<and> groundingChunks gm' = None)))"
    by (auto simp: responseChunks_def split: option.splits list.splits)
next
  assume t: "tryBlock now (TextRequest contents) (Returns response) = Inr m"
  show "\<forall>rs. references m = Some rs \<longrightarrow>
             (\<exists>c' cs' gm' chunks'. candidates response = Some (c' # cs') \<and>
                groundingMetadata c' = Some gm' \<and>
                groundingChunks gm' = Some (ChunkArray (map Some chunks')))
             \<and> (\<forall>r\<in>set rs. \<exists>u t. uri r = Some u \<and> u \<noteq> [] \<and> title r = Some t \<and> t \<noteq> [])"
  proof (intro allI impI)
    fix rs
    assume s: "references m = Some rs"
    from t s obtain entries where
      e: "responseChunks response = Some (ChunkArray entries)" and p: "None \<notin> set entries"
      and r: "rs = filter keepRef (map (\<lambda>e. chunkRef (the e)) entries)"
      by (auto simp: textBranch_cases split: option.splits ChunksValue.splits if_splits)
    from p obtain chunks' where c: "entries = map Some chunks'"
      using entries_present by blast
    from responseChunks_Some_raw [OF e] c
    have 1: "\<exists>c' cs' gm' chunks'. candidates response = Some (c' # cs') \<and>
                groundingMetadata c' = Some gm' \<and>
                groundingChunks gm' = Some (ChunkArray (map Some chunks'))"
      by blast
    have 2: "\<forall>r\<in>set rs. \<exists>u t. uri r = Some u \<and> u \<noteq> [] \<and> title r = Some t \<and> t \<noteq> []"
    proof
      fix x
      assume "x \<in> set rs"
      with r have "keepRef x"
        by simp
      then have "truthy (uri x)" and "truthy (title x)"
        by (simp_all add: keepRef_def)
      then show "\<exists>u t. uri x = Some u \<and> u \<noteq> [] \<and> title x = Some t \<and> t \<noteq> []"
        by (cases "uri x"; cases "title x") simp_all
    qed
    from 1 2 show "(\<exists>c' cs' gm' chunks'. candidates response = Some (c' # cs') \<and>
                groundingMetadata c' = Some gm' \<and>
                groundingChunks gm' = Some (ChunkArray (map Some chunks')))
             \<and> (\<forall>r\<in>set rs. \<exists>u t. uri r = Some u \<and> u \<noteq> [] \<and> title r = Some t \<and> t \<noteq> [])"
      by (rule conjI)
  qed
qed

theorem text_references_filtered_witness:
  "tryBlock 6 (TextRequest (persona @ utf16 ''fonts''))
     (Returns \<lparr>resp_text = Some (utf16 ''Try these.''),
        candidates = Some [\<lparr>content = None,
          groundingMetadata = Some \<lparr>groundingChunks = Some (ChunkArray
            [Some \<lparr>web = Some \<lparr>web_uri = Some (utf16 ''https://a.example''), web_title = Some (utf16 ''A'')\<rparr>\<rparr>,
             Some \<lparr>web = Some \<lparr>web_uri = Some (utf16 ''https://b.example''), web_title = None\<rparr>\<rparr>,
             Some \<lparr>web = Some \<lparr>web_uri = Some (utf16 ''https://d.example''), web_title = Some (utf16 ''D'')\<rparr>\<rparr>,
             Some \<lparr>web = Some \<lparr>web_uri = Some [], web_title = Some (utf16 ''E'')\<rparr>\<rparr>,
             Some \<lparr>web = None\<rparr>])\<rparr>\<rparr>]\<rparr>)
   = Inr \<lparr>author = MODEL, msg_text = Some (utf16 ''Try these.''), msg_id = modelId 6,
          references = Some [\<lparr>uri = Some (utf16 ''https://a.example''), title = Some (utf16 ''A'')\<rparr>,
                             \<lparr>uri = Some (utf16 ''https://d.example''), title = Some (utf16 ''D'')\<rparr>],
          imageUrl = None\<rparr>
   \<and> tryBlock 6 (TextRequest (persona @ utf16 ''fonts''))
       (Returns \<lparr>resp_text = Some (utf16 ''Try these.''),
          candidates = Some [\<lparr>content = None, groundingMetadata = None\<rparr>]\<rparr>)
     = Inr \<lparr>author = MODEL, msg_text = Some (utf16 ''Try these.''), msg_id = modelId 6,
            references = None, imageUrl = None\<rparr>
   \<and> tryBlock 6 (TextRequest (persona @ utf16 ''fonts''))
       (Returns \<lparr>resp_text = Some (utf16 ''Try these.''),
          candidates = Some [\<lparr>content = None,
            groundingMetadata = Some \<lparr>groundingChunks = Some (ChunkArray
              [Some \<lparr>web = None\<rparr>,
               Some \<lparr>web = Some \<lparr>web_uri = Some [], web_title = Some (utf16 ''E'')\<rparr>\<rparr>])\<rparr>\<rparr>]\<rparr>)
     = Inr \<lparr>author = MODEL, msg_text = Some (utf16 ''Try these.''), msg_id = modelId 6,
            references = Some [], imageUrl = None\<rparr>
   \<and> list_all (\<lambda>r. \<exists>u t. uri r = Some u \<and> u \<noteq> [] \<and> title r = Some t \<and> t \<noteq> [])
        [\<lparr>uri = Some (utf16 ''https://a.example''), title = Some (utf16 ''A'')\<rparr>,
         \<lparr>uri = Some (utf16 ''https://d.example''), title = Some (utf16 ''D'')\<rparr>]"
proof -
  let ?A = "\<lparr>web = Some \<lparr>web_uri = Some (utf16 ''https://a.example''), web_title = Some (utf16 ''A'')\<rparr>\<rparr>"
  let ?B = "\<lparr>web = Some \<lparr>web_uri = Some (utf16 ''https://b.example''), web_title = None\<rparr>\<rparr>"
  let ?D = "\<lparr>web = Some \<lparr>web_uri = Some (utf16 ''https://d.example''), web_title = Some (utf16 ''D'')\<rparr>\<rparr>"
  let ?E = "\<lparr>web = Some \<lparr>web_uri = Some [], web_title = Some (utf16 ''E'')\<rparr>\<rparr>"
  let ?F = "\<lparr>web = None\<rparr> :: GroundingChunk"
  let ?gm1 = "\<lparr>groundingChunks = Some (ChunkArray [Some ?A, Some ?B, Some ?D, Some ?E, Some ?F])\<rparr>"
  let ?c1 = "\<lparr>content = None, groundingMetadata = Some ?gm1\<rparr>"
  let ?r1 = "\<lparr>resp_text = Some (utf16 ''Try these.''), candidates = Some [?c1]\<rparr>"
  let ?c2 = "\<lparr>content = None, groundingMetadata = None\<rparr> :: Candidate"
  let ?r2 = "\<lparr>resp_text = Some (utf16 ''Try these.''), candidates = Some [?c2]\<rparr>"
  let ?gm3 = "\<lparr>groundingChunks = Some (ChunkArray [Some ?F, Some ?E])\<rparr>"
  let ?c3 = "\<lparr>content = None, groundingMetadata = Some ?gm3\<rparr>"
  let ?r3 = "\<lparr>resp_text = Some (utf16 ''Try these.''), candidates = Some [?c3]\<rparr>"
  have h1: "candidates ?r1 = Some (?c1 # []) \<and> groundingMetadata ?c1 = Some ?gm1 \<and>
      groundingChunks ?gm1 = Some (ChunkArray (map Some [?A, ?B, ?D, ?E, ?F]))"
    by simp
  have h2: "candidates ?r2 = None \<or> candidates ?r2 = Some [] \<or>
        (\<exists>c' cs'. candidates ?r2 = Some (c' # cs') \<and>
           (groundingMetadata c' = None \<or>
            (\<exists>gm'. groundingMetadata c' = Some gm' \<and> groundingChunks gm' = None)))"
    by simp
  have h3: "candidates ?r3 = Some (?c3 # []) \<and> groundingMetadata ?c3 = Some ?gm3 \<and>
      groundingChunks ?gm3 = Some (ChunkArray (map Some [?F, ?E])) \<and>
      (\<forall>chunk\<in>set [?F, ?E].
         case web chunk of
           None \<Rightarrow> True
         | Some w \<Rightarrow> web_uri w \<in> {None, Some []} \<or> web_title w \<in> {None, Some []})"
    by simp
  note t1 = text_references_filtered [where response = ?r1 and c = ?c1 and cs = "[]"
      and gm = ?gm1 and chunks = "[?A, ?B, ?D, ?E, ?F]" and now = 6
      and contents = "persona @ utf16 ''fonts''", THEN conjunct1, THEN mp, OF h1]
  note t2 = text_references_filtered [where response = ?r2 and now = 6
      and contents = "persona @ utf16 ''fonts''",
      THEN conjunct2, THEN conjunct2, THEN conjunct1, THEN mp, OF h2]
  note t3 = text_references_filtered [where response = ?r3 and c = ?c3 and cs = "[]"
      and gm = ?gm3 and chunks = "[?F, ?E]" and now = 6
      and contents = "persona @ utf16 ''fonts''",
      THEN conjunct2, THEN conjunct1, THEN mp, OF h3]
  have n: "utf16 ''https://a.example'' \<noteq> []" "utf16 ''A'' \<noteq> []"
    "utf16 ''https://d.example'' \<noteq> []" "utf16 ''D'' \<noteq> []" "utf16 ''https://b.example'' \<noteq> []"
    by (simp_all add: utf16_def)
  from t1 have 1: "tryBlock 6 (TextRequest (persona @ utf16 ''fonts'')) (Returns ?r1)
      = Inr \<lparr>author = MODEL, msg_text = Some (utf16 ''Try these.''), msg_id = modelId 6,
          references = Some [\<lparr>uri = Some (utf16 ''https://a.example''), title = Some (utf16 ''A'')\<rparr>,
                             \<lparr>uri = Some (utf16 ''https://d.example''), title = Some (utf16 ''D'')\<rparr>],
          imageUrl = None\<rparr>"
    by (simp add: n)
  from t2 have 2: "tryBlock 6 (TextRequest (persona @ utf16 ''fonts'')) (Returns ?r2)
     = Inr \<lparr>author = MODEL, msg_text = Some (utf16 ''Try these.''), msg_id = modelId 6,
            references = None, imageUrl = None\<rparr>"
    by simp
  from t3 have 3: "tryBlock 6 (TextRequest (persona @ utf16 ''fonts'')) (Returns ?r3)
     = Inr \<lparr>author = MODEL, msg_text = Some (utf16 ''Try these.''), msg_id = modelId 6,
            references = Some [], imageUrl = None\<rparr>"
    by simp
  note t4 = text_references_filtered [where response = ?r1 and now = 6
      and contents = "persona @ utf16 ''fonts''",
      THEN conjunct2, THEN conjunct2, THEN conjunct2, THEN mp, OF 1, THEN conjunct2]
  from t4 have 4: "list_all (\<lambda>r. \<exists>u t. uri r = Some u \<and> u \<noteq> [] \<and> title r = Some t \<and> t \<noteq> [])
        [\<lparr>uri = Some (utf16 ''https://a.example''), title = Some (utf16 ''A'')\<rparr>,
         \<lparr>uri = Some (utf16 ''https://d.example''), title = Some (utf16 ''D'')\<rparr>]"
    by (simp add: list_all_iff)
  from 1 2 3 4 show ?thesis
    by (intro conjI)
qed

text \<open>
  C8. No message of the conversation, in any state the component reaches, has both
  references and an image. A message built from an image response has an image URL that
  starts with \<open>data:image/png;base64,\<close> and has no references.
\<close>

theorem message_never_has_references_and_image:
  "(reachable (st, fl) \<longrightarrow> (\<forall>m\<in>set (messages st). references m = None \<or> imageUrl m = None))
   \<and> (tryBlock now (ImageRequest prompt) out = Inr m' \<longrightarrow>
        (\<exists>payload. imageUrl m' = Some (utf16 ''data:image/png;base64,'' @ payload))
        \<and> references m' = None)"
proof
  show "reachable (st, fl) \<longrightarrow> (\<forall>m\<in>set (messages st). references m = None \<or> imageUrl m = None)"
    using no_both_invariant [of "(st, fl)"] by simp
next
  show "tryBlock now (ImageRequest prompt) out = Inr m' \<longrightarrow>
        (\<exists>payload. imageUrl m' = Some (utf16 ''data:image/png;base64,'' @ payload))
        \<and> references m' = None"
  proof
    assume t: "tryBlock now (ImageRequest prompt) out = Inr m'"
    then obtain response where o: "out = Returns response"
      by (cases out) simp_all
    with t have i: "imageBranch now prompt response = Inr m'"
      by simp
    then obtain ps where p: "responseParts response = Inr ps"
      by (cases "responseParts response") (simp_all add: imageBranch_cases)
    with i have "imageUrl m' = Some (dataUrlPrefix @
        data (the (inlineData (last (filter (\<lambda>p. inlineData p \<noteq> None) ps)))))"
      and "references m' = None"
      by (auto simp: imageBranch_cases split: if_splits)
    then show "(\<exists>payload. imageUrl m' = Some (utf16 ''data:image/png;base64,'' @ payload))
        \<and> references m' = None"
      by (auto simp: dataUrlPrefix_def)
  qed
qed

theorem message_never_has_references_and_image_witness:
  "reachable
     (sendMessage_resume 2 (ImageRequest (utf16 ''cat''))
        (Returns \<lparr>resp_text = None,
           candidates = Some [\<lparr>content = Some \<lparr>parts = Some
               [\<lparr>inlineData = Some \<lparr>data = utf16 ''iVBO''\<rparr>\<rparr>]\<rparr>,
             groundingMetadata = None\<rparr>]\<rparr>)
        \<lparr>messages = [greeting, userMessage 1 (utf16 ''/imagine cat'')], input = [],
          isLoading = True\<rparr>, None)
   \<and> map imageUrl (messages
     (sendMessage_resume 2 (ImageRequest (utf16 ''cat''))
        (Returns \<lparr>resp_text = None,
           candidates = Some [\<lparr>content = Some \<lparr>parts = Some
               [\<lparr>inlineData = Some \<lparr>data = utf16 ''iVBO''\<rparr>\<rparr>]\<rparr>,
             groundingMetadata = None\<rparr>]\<rparr>)
        \<lparr>messages = [greeting, userMessage 1 (utf16 ''/imagine cat'')], input = [],
          isLoading = True\<rparr>))
     = [None, None, Some (utf16 ''data:image/png;base64,iVBO'')]
   \<and> list_all (\<lambda>m. references m = None \<or> imageUrl m = None) (messages
     (sendMessage_resume 2 (ImageRequest (utf16 ''cat''))
        (Returns \<lparr>resp_text = None,
           candidates = Some [\<lparr>content = Some \<lparr>parts = Some
               [\<lparr>inlineData = Some \<lparr>data = utf16 ''iVBO''\<rparr>\<rparr>]\<rparr>,
             groundingMetadata = None\<rparr>]\<rparr>)
        \<lparr>messages = [greeting, userMessage 1 (utf16 ''/imagine cat'')], input = [],
          isLoading = True\<rparr>))
   \<and> (\<exists>payload. imageUrl (projr (tryBlock 2 (ImageRequest (utf16 ''cat''))
        (Returns \<lparr>resp_text = None,
           candidates = Some [\<lparr>content = Some \<lparr>parts = Some
               [\<lparr>inlineData = Some \<lparr>data = utf16 ''iVBO''\<rparr>\<rparr>]\<rparr>,
             groundingMetadata = None\<rparr>]\<rparr>)))
          = Some (utf16 ''data:image/png;base64,'' @ payload))
   \<and> references (projr (tryBlock 2 (ImageRequest (utf16 ''cat''))
        (Returns \<lparr>resp_text = None,
           candidates = Some [\<lparr>content = Some \<lparr>parts = Some
               [\<lparr>inlineData = Some \<lparr>data = utf16 ''iVBO''\<rparr>\<rparr>]\<rparr>,
             groundingMetadata = None\<rparr>]\<rparr>))) = None"
proof -
  have t: "trim (utf16 ''/imagine cat'') = utf16 ''/imagine cat''"
    by (simp add: trim_def isWhiteSpace_def utf16_def)
  have n: "utf16 ''/imagine cat'' \<noteq> []"
    by (simp add: utf16_def)
  have i: "isImagePrompt (utf16 ''/imagine cat'')"
    unfolding isImagePrompt_def t by (simp add: startsWith_def imaginePrefix_def utf16_def)
  have b: "buildRequest (utf16 ''/imagine cat'') = ImageRequest (utf16 ''cat'')"
    unfolding buildRequest_def t using i by (simp add: substring_def imaginePrefix_def utf16_def)
  have s: "sendMessage 1 (setInput (utf16 ''/imagine cat'') (mount initialState))
      = (\<lparr>messages = [greeting, userMessage 1 (utf16 ''/imagine cat'')], input = [],
           isLoading = True\<rparr>, Some (ImageRequest (utf16 ''cat'')))"
    by (simp add: sendMessage_def Let_def setInput_def mount_def initialState_def t n b)
  have r1: "reachable (setInput (utf16 ''/imagine cat'') (mount initialState), None)"
    by (rule reach_input [OF reach_mount])
  have r2: "reachable (\<lparr>messages = [greeting, userMessage 1 (utf16 ''/imagine cat'')], input = [],
           isLoading = True\<rparr>, Some (ImageRequest (utf16 ''cat'')))"
    using reach_send [OF r1 s] by simp
  have r3: "reachable
     (sendMessage_resume 2 (ImageRequest (utf16 ''cat''))
        (Returns \<lparr>resp_text = None,
           candidates = Some [\<lparr>content = Some \<lparr>parts = Some
               [\<lparr>inlineData = Some \<lparr>data = utf16 ''iVBO''\<rparr>\<rparr>]\<rparr>,
             groundingMetadata = None\<rparr>]\<rparr>)
        \<lparr>messages = [greeting, userMessage 1 (utf16 ''/imagine cat'')], input = [],
          isLoading = True\<rparr>, None)"
    by (rule reach_settle [OF r2])
  have u: "map imageUrl (messages
     (sendMessage_resume 2 (ImageRequest (utf16 ''cat''))
        (Returns \<lparr>resp_text = None,
           candidates = Some [\<lparr>content = Some \<lparr>parts = Some
               [\<lparr>inlineData = Some \<lparr>data = utf16 ''iVBO''\<rparr>\<rparr>]\<rparr>,
             groundingMetadata = None\<rparr>]\<rparr>)
        \<lparr>messages = [greeting, userMessage 1 (utf16 ''/imagine cat'')], input = [],
          isLoading = True\<rparr>))
     = [None, None, Some (utf16 ''data:image/png;base64,iVBO'')]"
    by (simp add: resume_messages imageBranch_def responseParts_def Let_def greeting_def
        userMessage_def dataUrlPrefix_def utf16_def)
  have v: "tryBlock 2 (ImageRequest (utf16 ''cat''))
        (Returns \<lparr>resp_text = None,
           candidates = Some [\<lparr>content = Some \<lparr>parts = Some
               [\<lparr>inlineData = Some \<lparr>data = utf16 ''iVBO''\<rparr>\<rparr>]\<rparr>,
             groundingMetadata = None\<rparr>]\<rparr>)
      = Inr (projr (tryBlock 2 (ImageRequest (utf16 ''cat''))
        (Returns \<lparr>resp_text = None,
           candidates = Some [\<lparr>content = Some \<lparr>parts = Some
               [\<lparr>inlineData = Some \<lparr>data = utf16 ''iVBO''\<rparr>\<rparr>]\<rparr>,
             groundingMetadata = None\<rparr>]\<rparr>)))"
    by (simp add: imageBranch_def responseParts_def Let_def dataUrlPrefix_nonempty)
  note inv = message_never_has_references_and_image [THEN conjunct1, THEN mp, OF r3]
  note img = message_never_has_references_and_image [THEN conjunct2, THEN mp, OF v]
  from r3 u inv img show ?thesis
    by (simp add: list_all_iff)
qed

end
